theory Spec2Isabelle
  imports Complex_Main
begin

section \<open>The pet model of PiTamagotchi\<close>

text \<open>
  The class \<^verbatim>\<open>PiTamagotchi\<close> occurs twice in the repository, once in
  \<^verbatim>\<open>tamagotchi.py\<close> and once in \<^verbatim>\<open>tam_sim.py\<close>. Both have the same six
  attributes, so one record serves both. Python integers are unbounded, hence \<open>int\<close>;
  the mood is a Python string, hence \<open>string\<close>; \<^verbatim>\<open>last_tick\<close> holds what
  \<^verbatim>\<open>time.time()\<close> returned and is only stored by the class, never computed with.
\<close>

record pet =
  hunger :: int
  happiness :: int
  age :: int
  is_asleep :: bool
  state :: string
  last_tick :: real

text \<open>
  \<^verbatim>\<open>__init__\<close>; the argument is the value of \<^verbatim>\<open>time.time()\<close> at construction.
\<close>

definition init :: "real \<Rightarrow> pet" where
  "init now =
     \<lparr>hunger = 50, happiness = 50, age = 0, is_asleep = False,
      state = ''neutral'', last_tick = now\<rparr>"

subsection \<open>The random source\<close>

text \<open>
  \<^verbatim>\<open>random.randint(a, b)\<close> of the Python library returns an integer \<open>N\<close> with
  \<open>a \<le> N \<le> b\<close> and advances the generator. The generator is an infinite tape of raw
  numbers; a call reads the head of the tape, reduces it into the range and drops it.
  Every sequence of results that the library can return is the result of some tape.
\<close>

type_synonym rng = "nat \<Rightarrow> nat"

definition randint :: "int \<Rightarrow> int \<Rightarrow> rng \<Rightarrow> int \<times> rng" where
  "randint a b r = (a + int (r 0 mod nat (b - a + 1)), \<lambda>n. r (Suc n))"

subsection \<open>tamagotchi.py\<close>

definition update_state :: "pet \<Rightarrow> pet" where
  "update_state p =
     (if is_asleep p then p\<lparr>state := ''asleep''\<rparr>
      else if hunger p > 85 \<or> happiness p < 15 then p\<lparr>state := ''dead''\<rparr>
      else if hunger p > 70 then p\<lparr>state := ''hungry''\<rparr>
      else if happiness p < 30 then p\<lparr>state := ''sad''\<rparr>
      else if happiness p > 80 then p\<lparr>state := ''happy''\<rparr>
      else p\<lparr>state := ''neutral''\<rparr>)"

text \<open>
  \<^verbatim>\<open>update_tick\<close> returns nothing; the model returns the mutated pet and the
  generator after the draws the call made.
\<close>

definition update_tick :: "pet \<Rightarrow> rng \<Rightarrow> pet \<times> rng" where
  "update_tick p r =
     (if state p = ''dead'' then (p, r)
      else
        (let p1 = p\<lparr>age := age p + 1\<rparr>;
             (p2, r2) =
               (if is_asleep p1 then
                  (let (g, ra) = randint 1 6 r in
                   if g = 1 then
                     (let (d, rb) = randint 0 1 ra;
                          q = p1\<lparr>hunger := hunger p1 + d\<rparr>
                      in (q\<lparr>happiness := min 100 (happiness q + 1)\<rparr>, rb))
                   else (p1, ra))
                else
                  (let (g, ra) = randint 1 2 r in
                   if g = 1 then
                     (let (d, rb) = randint 1 2 ra;
                          q = p1\<lparr>hunger := hunger p1 + d\<rparr>;
                          (e, rc) = randint 1 2 rb
                      in (q\<lparr>happiness := happiness q - e\<rparr>, rc))
                   else (p1, ra)));
             p3 = p2\<lparr>hunger := max 0 (min 100 (hunger p2))\<rparr>;
             p4 = p3\<lparr>happiness := max 0 (min 100 (happiness p3))\<rparr>
         in (update_state p4, r2)))"

text \<open>The three actions return their success flag together with the mutated pet.\<close>

definition feed :: "pet \<Rightarrow> bool \<times> pet" where
  "feed p =
     (if is_asleep p \<or> state p = ''dead'' then (False, p)
      else
        (let p1 = p\<lparr>hunger := hunger p - 25\<rparr>;
             p2 = p1\<lparr>happiness := happiness p1 + 5\<rparr>;
             p3 = p2\<lparr>hunger := max 0 (min 100 (hunger p2))\<rparr>;
             p4 = p3\<lparr>happiness := max 0 (min 100 (happiness p3))\<rparr>
         in (True, update_state p4)))"

definition play :: "pet \<Rightarrow> bool \<times> pet" where
  "play p =
     (if is_asleep p \<or> state p = ''dead'' then (False, p)
      else
        (let p1 = p\<lparr>happiness := happiness p + 20\<rparr>;
             p2 = p1\<lparr>hunger := hunger p1 + 10\<rparr>;
             p3 = p2\<lparr>hunger := max 0 (min 100 (hunger p2))\<rparr>;
             p4 = p3\<lparr>happiness := max 0 (min 100 (happiness p3))\<rparr>
         in (True, update_state p4)))"

definition toggle_sleep :: "pet \<Rightarrow> bool \<times> pet" where
  "toggle_sleep p =
     (if state p = ''dead'' then (False, p)
      else (True, update_state (p\<lparr>is_asleep := \<not> is_asleep p\<rparr>)))"

subsection \<open>tam\_sim.py\<close>

text \<open>
  The simulator's copy of the class. \<^verbatim>\<open>update_state\<close>, \<^verbatim>\<open>update_tick\<close> and
  \<^verbatim>\<open>toggle_sleep\<close> are written as in \<^verbatim>\<open>tamagotchi.py\<close>; \<^verbatim>\<open>feed\<close> and
  \<^verbatim>\<open>play\<close> clamp each statistic on one side only, inline.
\<close>

definition update_state_sim :: "pet \<Rightarrow> pet" where
  "update_state_sim p =
     (if is_asleep p then p\<lparr>state := ''asleep''\<rparr>
      else if hunger p > 85 \<or> happiness p < 15 then p\<lparr>state := ''dead''\<rparr>
      else if hunger p > 70 then p\<lparr>state := ''hungry''\<rparr>
      else if happiness p < 30 then p\<lparr>state := ''sad''\<rparr>
      else if happiness p > 80 then p\<lparr>state := ''happy''\<rparr>
      else p\<lparr>state := ''neutral''\<rparr>)"

definition update_tick_sim :: "pet \<Rightarrow> rng \<Rightarrow> pet \<times> rng" where
  "update_tick_sim p r =
     (if state p = ''dead'' then (p, r)
      else
        (let p1 = p\<lparr>age := age p + 1\<rparr>;
             (p2, r2) =
               (if is_asleep p1 then
                  (let (g, ra) = randint 1 6 r in
                   if g = 1 then
                     (let (d, rb) = randint 0 1 ra;
                          q = p1\<lparr>hunger := hunger p1 + d\<rparr>
                      in (q\<lparr>happiness := min 100 (happiness q + 1)\<rparr>, rb))
                   else (p1, ra))
                else
                  (let (g, ra) = randint 1 2 r in
                   if g = 1 then
                     (let (d, rb) = randint 1 2 ra;
                          q = p1\<lparr>hunger := hunger p1 + d\<rparr>;
                          (e, rc) = randint 1 2 rb
                      in (q\<lparr>happiness := happiness q - e\<rparr>, rc))
                   else (p1, ra)));
             p3 = p2\<lparr>hunger := max 0 (min 100 (hunger p2))\<rparr>;
             p4 = p3\<lparr>happiness := max 0 (min 100 (happiness p3))\<rparr>
         in (update_state_sim p4, r2)))"

definition feed_sim :: "pet \<Rightarrow> bool \<times> pet" where
  "feed_sim p =
     (if is_asleep p \<or> state p = ''dead'' then (False, p)
      else
        (let p1 = p\<lparr>hunger := max 0 (hunger p - 25)\<rparr>;
             p2 = p1\<lparr>happiness := min 100 (happiness p1 + 5)\<rparr>
         in (True, update_state_sim p2)))"

definition play_sim :: "pet \<Rightarrow> bool \<times> pet" where
  "play_sim p =
     (if is_asleep p \<or> state p = ''dead'' then (False, p)
      else
        (let p1 = p\<lparr>happiness := min 100 (happiness p + 20)\<rparr>;
             p2 = p1\<lparr>hunger := min 100 (hunger p1 + 10)\<rparr>
         in (True, update_state_sim p2)))"

definition toggle_sleep_sim :: "pet \<Rightarrow> bool \<times> pet" where
  "toggle_sleep_sim p =
     (if state p = ''dead'' then (False, p)
      else (True, update_state_sim (p\<lparr>is_asleep := \<not> is_asleep p\<rparr>)))"

subsection \<open>Sequences of calls\<close>

text \<open>
  The main loops of both files call the four methods in an order that the clock and
  the buttons decide. A run is a list of such calls applied from left to right; the
  generator is threaded through, and the flags the actions return are dropped, as
  they do not feed back into the pet.
\<close>

datatype call = Tick | Feed | Play | ToggleSleep

fun step :: "call \<Rightarrow> pet \<times> rng \<Rightarrow> pet \<times> rng" where
  "step Tick (p, r) = update_tick p r"
| "step Feed (p, r) = (snd (feed p), r)"
| "step Play (p, r) = (snd (play p), r)"
| "step ToggleSleep (p, r) = (snd (toggle_sleep p), r)"

fun run :: "call list \<Rightarrow> pet \<times> rng \<Rightarrow> pet \<times> rng" where
  "run [] s = s"
| "run (c # cs) s = run cs (step c s)"

fun step_sim :: "call \<Rightarrow> pet \<times> rng \<Rightarrow> pet \<times> rng" where
  "step_sim Tick (p, r) = update_tick_sim p r"
| "step_sim Feed (p, r) = (snd (feed_sim p), r)"
| "step_sim Play (p, r) = (snd (play_sim p), r)"
| "step_sim ToggleSleep (p, r) = (snd (toggle_sleep_sim p), r)"

fun run_sim :: "call list \<Rightarrow> pet \<times> rng \<Rightarrow> pet \<times> rng" where
  "run_sim [] s = s"
| "run_sim (c # cs) s = run_sim cs (step_sim c s)"

text \<open>The range of both statistics.\<close>

definition in_range :: "pet \<Rightarrow> bool" where
  "in_range p \<longleftrightarrow> 0 \<le> hunger p \<and> hunger p \<le> 100 \<and> 0 \<le> happiness p \<and> happiness p \<le> 100"


text \<open>
  The state derivation rule in the words of the specification, to be compared with
  \<^verbatim>\<open>update_state\<close>: the first rule that matches wins.
  1. asleep gives Asleep; 2. hunger above 85 or happiness below 15 gives Dead;
  3. hunger above 70 gives Hungry; 4. happiness below 30 gives Sad;
  5. happiness above 80 gives Happy; 6. otherwise Neutral.
\<close>

definition spec_derive_state :: "int \<Rightarrow> int \<Rightarrow> bool \<Rightarrow> string" where
  "spec_derive_state h hp asleep =
     (if asleep then ''asleep''
      else if h > 85 \<or> hp < 15 then ''dead''
      else if h > 70 then ''hungry''
      else if hp < 30 then ''sad''
      else if hp > 80 then ''happy''
      else ''neutral'')"

text \<open>A pet whose mood is the one the rule derives from its statistics and sleep flag.\<close>

definition derived :: "pet \<Rightarrow> bool" where
  "derived p \<longleftrightarrow> state p = spec_derive_state (hunger p) (happiness p) (is_asleep p)"

section \<open>Auxiliary facts\<close>

lemma in_range_init: "in_range (init now)"
  by (simp add: in_range_def init_def)

lemma derived_init: "derived (init now)"
  by (simp add: derived_def init_def spec_derive_state_def)

lemma hunger_update_state [simp]: "hunger (update_state p) = hunger p"
  by (simp add: update_state_def)

lemma happiness_update_state [simp]: "happiness (update_state p) = happiness p"
  by (simp add: update_state_def)

lemma age_update_state [simp]: "age (update_state p) = age p"
  by (simp add: update_state_def)

lemma is_asleep_update_state [simp]: "is_asleep (update_state p) = is_asleep p"
  by (simp add: update_state_def)

lemma last_tick_update_state [simp]: "last_tick (update_state p) = last_tick p"
  by (simp add: update_state_def)

lemma state_update_state:
  "state (update_state p) = spec_derive_state (hunger p) (happiness p) (is_asleep p)"
  by (simp add: update_state_def spec_derive_state_def)

lemma derived_update_state [simp]: "derived (update_state p)"
  by (simp add: derived_def state_update_state)

lemma in_range_update_state [simp]: "in_range (update_state p) = in_range p"
  by (simp add: in_range_def)

lemma update_state_sim_eq: "update_state_sim = update_state"
  by (rule ext) (simp add: update_state_sim_def update_state_def)

lemma update_tick_sim_eq: "update_tick_sim = update_tick"
  by (intro ext) (simp add: update_tick_sim_def update_tick_def update_state_sim_eq)

lemma toggle_sleep_sim_eq: "toggle_sleep_sim = toggle_sleep"
  by (rule ext) (simp add: toggle_sleep_sim_def toggle_sleep_def update_state_sim_eq)

lemma feed_sim_eq: "in_range p \<Longrightarrow> feed_sim p = feed p"
  by (cases p)
    (simp add: feed_sim_def feed_def Let_def update_state_sim_eq in_range_def max_def min_def)

lemma play_sim_eq: "in_range p \<Longrightarrow> play_sim p = play p"
  by (cases p)
    (simp add: play_sim_def play_def Let_def update_state_sim_eq in_range_def max_def min_def)

text \<open>A tick of a living pet clamps both statistics and ends in \<^verbatim>\<open>update_state\<close>.\<close>

lemma update_tick_dead: "state p = ''dead'' \<Longrightarrow> update_tick p r = (p, r)"
  by (simp add: update_tick_def)

lemma in_range_update_tick_alive:
  "state p \<noteq> ''dead'' \<Longrightarrow> in_range (fst (update_tick p r))"
  by (simp add: update_tick_def Let_def case_prod_beta in_range_def)

lemma derived_update_tick_alive:
  "state p \<noteq> ''dead'' \<Longrightarrow> derived (fst (update_tick p r))"
  by (simp add: update_tick_def Let_def case_prod_beta)

lemma in_range_update_tick: "in_range p \<Longrightarrow> in_range (fst (update_tick p r))"
  by (cases "state p = ''dead''") (simp_all add: update_tick_dead in_range_update_tick_alive)

lemma in_range_feed: "in_range p \<Longrightarrow> in_range (snd (feed p))"
  by (simp add: feed_def Let_def) (simp add: in_range_def)

lemma in_range_play: "in_range p \<Longrightarrow> in_range (snd (play p))"
  by (simp add: play_def Let_def) (simp add: in_range_def)

lemma in_range_toggle_sleep: "in_range p \<Longrightarrow> in_range (snd (toggle_sleep p))"
  by (simp add: toggle_sleep_def) (simp add: in_range_def)

lemma in_range_step: "in_range (fst s) \<Longrightarrow> in_range (fst (step c s))"
  by (cases s; cases c)
    (simp_all add: in_range_update_tick in_range_feed in_range_play in_range_toggle_sleep)

lemma step_sim_eq: "in_range (fst s) \<Longrightarrow> step_sim c s = step c s"
  by (cases s; cases c)
    (simp_all add: update_tick_sim_eq toggle_sleep_sim_eq feed_sim_eq play_sim_eq)

lemma in_range_run: "in_range (fst s) \<Longrightarrow> in_range (fst (run cs s))"
  by (induction cs arbitrary: s) (simp_all add: in_range_step)

lemma run_sim_eq: "in_range (fst s) \<Longrightarrow> run_sim cs s = run cs s"
  by (induction cs arbitrary: s) (simp_all add: step_sim_eq in_range_step)

text \<open>Every call either leaves the pet as it was or ends in \<^verbatim>\<open>update_state\<close>.\<close>

lemma derived_update_tick: "derived p \<Longrightarrow> derived (fst (update_tick p r))"
  by (cases "state p = ''dead''") (simp_all add: update_tick_dead derived_update_tick_alive)

lemma derived_feed: "derived p \<Longrightarrow> derived (snd (feed p))"
  by (simp add: feed_def Let_def)

lemma derived_play: "derived p \<Longrightarrow> derived (snd (play p))"
  by (simp add: play_def Let_def)

lemma derived_toggle_sleep: "derived p \<Longrightarrow> derived (snd (toggle_sleep p))"
  by (simp add: toggle_sleep_def)

lemma derived_step: "derived (fst s) \<Longrightarrow> derived (fst (step c s))"
  by (cases s; cases c)
    (simp_all add: derived_update_tick derived_feed derived_play derived_toggle_sleep)

lemma derived_run: "derived (fst s) \<Longrightarrow> derived (fst (run cs s))"
  by (induction cs arbitrary: s) (simp_all add: derived_step)

lemma derived_asleep: "derived p \<Longrightarrow> is_asleep p \<Longrightarrow> state p = ''asleep''"
  by (simp add: derived_def spec_derive_state_def)

text \<open>A dead pet is a fixed point of every call.\<close>

lemma step_dead: "state p = ''dead'' \<Longrightarrow> step c (p, r) = (p, r)"
  by (cases c) (simp_all add: update_tick_dead feed_def play_def toggle_sleep_def)

lemma run_dead: "state p = ''dead'' \<Longrightarrow> run cs (p, r) = (p, r)"
  by (induction cs) (simp_all add: step_dead)

lemma step_sim_dead: "state p = ''dead'' \<Longrightarrow> step_sim c (p, r) = (p, r)"
  by (cases c)
    (simp_all add: update_tick_sim_eq update_tick_dead feed_sim_def play_sim_def
      toggle_sleep_sim_def)

lemma run_sim_dead: "state p = ''dead'' \<Longrightarrow> run_sim cs (p, r) = (p, r)"
  by (induction cs) (simp_all add: step_sim_dead)

text \<open>Only \<^verbatim>\<open>toggle_sleep\<close> touches the sleep flag.\<close>

lemma is_asleep_update_tick: "is_asleep (fst (update_tick p r)) = is_asleep p"
  by (simp add: update_tick_def Let_def case_prod_beta)

lemma is_asleep_feed: "is_asleep (snd (feed p)) = is_asleep p"
  by (simp add: feed_def Let_def)

lemma is_asleep_play: "is_asleep (snd (play p)) = is_asleep p"
  by (simp add: play_def Let_def)

lemma is_asleep_step:
  "c \<noteq> ToggleSleep \<Longrightarrow> is_asleep (fst (step c (p, r))) = is_asleep p"
  by (cases c) (simp_all add: is_asleep_update_tick is_asleep_feed is_asleep_play)

lemma derived_reachable: "derived (fst (run cs (init now, r)))"
  by (rule derived_run) (simp add: derived_init)

lemma run_sim_reachable: "run_sim cs (init now, r) = run cs (init now, r)"
  by (rule run_sim_eq) (simp add: in_range_init)

text \<open>What \<^verbatim>\<open>randint\<close> returns lies in the range asked for, and every value of it occurs.\<close>

lemma randint_range:
  assumes "a \<le> b"
  shows "a \<le> fst (randint a b r) \<and> fst (randint a b r) \<le> b"
proof -
  from assms have pos: "0 < nat (b - a + 1)"
    by simp
  have "r 0 mod nat (b - a + 1) < nat (b - a + 1)"
    using pos by (rule mod_less_divisor)
  then have "int (r 0 mod nat (b - a + 1)) < b - a + 1"
    using assms by linarith
  then show ?thesis
    by (simp add: randint_def)
qed

lemma randint_onto:
  assumes "a \<le> v" and "v \<le> b"
  shows "fst (randint a b (\<lambda>n. nat (v - a))) = v"
proof -
  from assms have "nat (v - a) < nat (b - a + 1)"
    by linarith
  then have "nat (v - a) mod nat (b - a + 1) = nat (v - a)"
    by simp
  with assms show ?thesis
    by (simp add: randint_def)
qed

lemma gate_asleep: "fst (randint 1 6 r) = 1 \<longleftrightarrow> r 0 mod 6 = 0"
  by (simp add: randint_def)

lemma gate_awake: "fst (randint 1 2 r) = 1 \<longleftrightarrow> r 0 mod 2 = 0"
  by (simp add: randint_def)

text \<open>
  The guards of the three actions, and what a refused call returns. For the pet with
  hunger 90 and happiness 50 that is awake, the derived state is dead and
  \<^verbatim>\<open>feed\<close> then fails and changes nothing.
\<close>

lemma action_guards:
  "(feed p = (False, p) \<longleftrightarrow> is_asleep p \<or> state p = ''dead'') \<and>
   (\<not> fst (feed p) \<longleftrightarrow> is_asleep p \<or> state p = ''dead'') \<and>
   (fst (feed p) \<or> snd (feed p) = p) \<and>
   (play p = (False, p) \<longleftrightarrow> is_asleep p \<or> state p = ''dead'') \<and>
   (\<not> fst (play p) \<longleftrightarrow> is_asleep p \<or> state p = ''dead'') \<and>
   (fst (play p) \<or> snd (play p) = p) \<and>
   (toggle_sleep p = (False, p) \<longleftrightarrow> state p = ''dead'') \<and>
   (\<not> fst (toggle_sleep p) \<longleftrightarrow> state p = ''dead'') \<and>
   (fst (toggle_sleep p) \<or> snd (toggle_sleep p) = p) \<and>
   (feed_sim p = (False, p) \<longleftrightarrow> is_asleep p \<or> state p = ''dead'') \<and>
   (\<not> fst (feed_sim p) \<longleftrightarrow> is_asleep p \<or> state p = ''dead'') \<and>
   (fst (feed_sim p) \<or> snd (feed_sim p) = p) \<and>
   (play_sim p = (False, p) \<longleftrightarrow> is_asleep p \<or> state p = ''dead'') \<and>
   (\<not> fst (play_sim p) \<longleftrightarrow> is_asleep p \<or> state p = ''dead'') \<and>
   (fst (play_sim p) \<or> snd (play_sim p) = p) \<and>
   (toggle_sleep_sim p = (False, p) \<longleftrightarrow> state p = ''dead'') \<and>
   (\<not> fst (toggle_sleep_sim p) \<longleftrightarrow> state p = ''dead'') \<and>
   (fst (toggle_sleep_sim p) \<or> snd (toggle_sleep_sim p) = p) \<and>
   state (update_state \<lparr>hunger = 90, happiness = 50, age = a, is_asleep = False,
     state = s, last_tick = t\<rparr>) = ''dead'' \<and>
   feed (update_state \<lparr>hunger = 90, happiness = 50, age = a, is_asleep = False,
     state = s, last_tick = t\<rparr>) =
     (False, \<lparr>hunger = 90, happiness = 50, age = a, is_asleep = False,
       state = ''dead'', last_tick = t\<rparr>) \<and>
   feed_sim (update_state_sim \<lparr>hunger = 90, happiness = 50, age = a, is_asleep = False,
     state = s, last_tick = t\<rparr>) =
     (False, \<lparr>hunger = 90, happiness = 50, age = a, is_asleep = False,
       state = ''dead'', last_tick = t\<rparr>)"
proof -
  have feed: "(feed p = (False, p) \<longleftrightarrow> is_asleep p \<or> state p = ''dead'') \<and>
      (\<not> fst (feed p) \<longleftrightarrow> is_asleep p \<or> state p = ''dead'') \<and>
      (fst (feed p) \<or> snd (feed p) = p)"
    by (simp add: feed_def Let_def)
  have play: "(play p = (False, p) \<longleftrightarrow> is_asleep p \<or> state p = ''dead'') \<and>
      (\<not> fst (play p) \<longleftrightarrow> is_asleep p \<or> state p = ''dead'') \<and>
      (fst (play p) \<or> snd (play p) = p)"
    by (simp add: play_def Let_def)
  have toggle: "(toggle_sleep p = (False, p) \<longleftrightarrow> state p = ''dead'') \<and>
      (\<not> fst (toggle_sleep p) \<longleftrightarrow> state p = ''dead'') \<and>
      (fst (toggle_sleep p) \<or> snd (toggle_sleep p) = p)"
    by (simp add: toggle_sleep_def)
  have feed_sim: "(feed_sim p = (False, p) \<longleftrightarrow> is_asleep p \<or> state p = ''dead'') \<and>
      (\<not> fst (feed_sim p) \<longleftrightarrow> is_asleep p \<or> state p = ''dead'') \<and>
      (fst (feed_sim p) \<or> snd (feed_sim p) = p)"
    by (simp add: feed_sim_def Let_def)
  have play_sim: "(play_sim p = (False, p) \<longleftrightarrow> is_asleep p \<or> state p = ''dead'') \<and>
      (\<not> fst (play_sim p) \<longleftrightarrow> is_asleep p \<or> state p = ''dead'') \<and>
      (fst (play_sim p) \<or> snd (play_sim p) = p)"
    by (simp add: play_sim_def Let_def)
  have scenario: "update_state \<lparr>hunger = 90, happiness = 50, age = a, is_asleep = False,
      state = s, last_tick = t\<rparr> =
      \<lparr>hunger = 90, happiness = 50, age = a, is_asleep = False, state = ''dead'',
       last_tick = t\<rparr>"
    by (simp add: update_state_def)
  have fails: "feed \<lparr>hunger = 90, happiness = 50, age = a, is_asleep = False,
      state = ''dead'', last_tick = t\<rparr> =
      (False, \<lparr>hunger = 90, happiness = 50, age = a, is_asleep = False, state = ''dead'',
        last_tick = t\<rparr>)"
    by (simp add: feed_def)
  have fails_sim: "feed_sim \<lparr>hunger = 90, happiness = 50, age = a, is_asleep = False,
      state = ''dead'', last_tick = t\<rparr> =
      (False, \<lparr>hunger = 90, happiness = 50, age = a, is_asleep = False, state = ''dead'',
        last_tick = t\<rparr>)"
    by (simp add: feed_sim_def)
  show ?thesis
    using feed play toggle feed_sim play_sim fails fails_sim
    by (simp add: scenario toggle_sleep_sim_eq update_state_sim_eq)
qed

section \<open>The claims\<close>

text \<open>
  C1. Starting from the pet that the constructor builds (hunger 50, happiness 50, age 0,
  awake, neutral), after any sequence of \<^verbatim>\<open>update_tick\<close>, \<^verbatim>\<open>feed\<close>, \<^verbatim>\<open>play\<close>
  and \<^verbatim>\<open>toggle_sleep\<close> calls, with any random draws, hunger and happiness are
  integers between 0 and 100. This holds for the class of either file.
\<close>

theorem C1_stats_in_range:
  "0 \<le> hunger (fst (run cs (init now, r))) \<and> hunger (fst (run cs (init now, r))) \<le> 100 \<and>
   0 \<le> happiness (fst (run cs (init now, r))) \<and> happiness (fst (run cs (init now, r))) \<le> 100 \<and>
   0 \<le> hunger (fst (run_sim cs (init now, r))) \<and> hunger (fst (run_sim cs (init now, r))) \<le> 100 \<and>
   0 \<le> happiness (fst (run_sim cs (init now, r))) \<and>
   happiness (fst (run_sim cs (init now, r))) \<le> 100"
proof -
  have "in_range (fst (run cs (init now, r)))"
    by (rule in_range_run) (simp add: in_range_init)
  moreover have "run_sim cs (init now, r) = run cs (init now, r)"
    by (rule run_sim_eq) (simp add: in_range_init)
  ultimately show ?thesis
    by (simp add: in_range_def)
qed

text \<open>
  C2. Dead is absorbing. For a pet whose state is "dead", any sequence of further
  \<^verbatim>\<open>update_tick\<close>, \<^verbatim>\<open>feed\<close>, \<^verbatim>\<open>play\<close> and \<^verbatim>\<open>toggle_sleep\<close> calls, with
  any random draws, leaves every attribute as it was (and draws no random number); the
  three actions report failure; and \<open>n\<close> ticks are the same as no tick at all. This
  holds for the class of either file.
\<close>

theorem C2_dead_absorbing:
  assumes "state p = ''dead''"
  shows "run cs (p, r) = (p, r) \<and> run_sim cs (p, r) = (p, r) \<and>
         run (replicate n Tick) (p, r) = run [] (p, r) \<and>
         run_sim (replicate n Tick) (p, r) = run_sim [] (p, r) \<and>
         update_tick p r = (p, r) \<and> update_tick_sim p r = (p, r) \<and>
         feed p = (False, p) \<and> play p = (False, p) \<and> toggle_sleep p = (False, p) \<and>
         feed_sim p = (False, p) \<and> play_sim p = (False, p) \<and>
         toggle_sleep_sim p = (False, p)"
  using assms
  by (simp add: run_dead run_sim_dead update_tick_dead update_tick_sim_eq feed_def play_def
      toggle_sleep_def feed_sim_def play_sim_def toggle_sleep_sim_def)

theorem C2_dead_absorbing_witness:
  "state \<lparr>hunger = 90, happiness = 50, age = 3, is_asleep = False, state = ''dead'',
      last_tick = 0\<rparr> = ''dead'' \<and>
   fst (run [Tick, Feed, Play, ToggleSleep, Tick]
      (\<lparr>hunger = 90, happiness = 50, age = 3, is_asleep = False, state = ''dead'',
         last_tick = 0\<rparr>, \<lambda>n. 0)) =
     \<lparr>hunger = 90, happiness = 50, age = 3, is_asleep = False, state = ''dead'',
      last_tick = 0\<rparr> \<and>
   fst (run (replicate 4 Tick)
      (\<lparr>hunger = 90, happiness = 50, age = 3, is_asleep = False, state = ''dead'',
         last_tick = 0\<rparr>, \<lambda>n. 0)) =
     \<lparr>hunger = 90, happiness = 50, age = 3, is_asleep = False, state = ''dead'',
      last_tick = 0\<rparr>"
proof -
  have dead: "state \<lparr>hunger = 90, happiness = 50, age = 3, is_asleep = False,
      state = ''dead'', last_tick = 0\<rparr> = ''dead''"
    by simp
  from C2_dead_absorbing [OF dead, of "[Tick, Feed, Play, ToggleSleep, Tick]" "\<lambda>n. 0" 4]
  show ?thesis
    by simp
qed

text \<open>
  C3. In every state reachable from the constructor's pet, a sleeping pet has state
  "asleep" and therefore not "dead", whatever its statistics; \<^verbatim>\<open>update_state\<close> on
  any sleeping pet gives "asleep", also with hunger above 85 or happiness below 15; and
  a reachable sleeping pet is still "asleep" after any call other than
  \<^verbatim>\<open>toggle_sleep\<close>, so that it never becomes dead while it sleeps. This holds for the
  class of either file.
\<close>

theorem C3_asleep_precedence:
  "(is_asleep (fst (run cs (init now, r))) \<longrightarrow>
      state (fst (run cs (init now, r))) = ''asleep'' \<and>
      state (fst (run cs (init now, r))) \<noteq> ''dead'') \<and>
   (is_asleep (fst (run_sim cs (init now, r))) \<longrightarrow>
      state (fst (run_sim cs (init now, r))) = ''asleep'' \<and>
      state (fst (run_sim cs (init now, r))) \<noteq> ''dead'') \<and>
   (is_asleep q \<longrightarrow>
      state (update_state q) = ''asleep'' \<and> state (update_state_sim q) = ''asleep'') \<and>
   (is_asleep (fst (run cs (init now, r))) \<and> c \<noteq> ToggleSleep \<longrightarrow>
      state (fst (step c (run cs (init now, r)))) = ''asleep'' \<and>
      state (fst (step_sim c (run_sim cs (init now, r)))) = ''asleep'')"
proof -
  let ?s = "run cs (init now, r)"
  have d: "derived (fst ?s)"
    by (rule derived_reachable)
  have a: "is_asleep (fst ?s) \<longrightarrow> state (fst ?s) = ''asleep'' \<and> state (fst ?s) \<noteq> ''dead''"
    using d by (auto dest: derived_asleep)
  have b: "is_asleep q \<longrightarrow>
      state (update_state q) = ''asleep'' \<and> state (update_state_sim q) = ''asleep''"
    by (simp add: update_state_sim_eq update_state_def)
  have c: "state (fst (step c ?s)) = ''asleep''"
    if "is_asleep (fst ?s)" "c \<noteq> ToggleSleep"
  proof -
    have "derived (fst (step c ?s))"
      using d by (rule derived_step)
    moreover have "is_asleep (fst (step c ?s))"
      using that is_asleep_step [of c "fst ?s" "snd ?s"] by simp
    ultimately show ?thesis
      by (rule derived_asleep)
  qed
  have e: "step_sim c (run_sim cs (init now, r)) = step c ?s"
    by (simp add: run_sim_reachable step_sim_eq in_range_run in_range_init)
  show ?thesis
    using a b c e by (simp add: run_sim_reachable)
qed

theorem C3_asleep_precedence_witness:
  "is_asleep (fst (run [Play, Play, Play, ToggleSleep, Tick, Tick, Tick, Tick, Tick, Tick]
      (init 0, \<lambda>n. n mod 2))) \<and>
   hunger (fst (run [Play, Play, Play, ToggleSleep, Tick, Tick, Tick, Tick, Tick, Tick]
      (init 0, \<lambda>n. n mod 2))) = 86 \<and>
   state (fst (run [Play, Play, Play, ToggleSleep, Tick, Tick, Tick, Tick, Tick, Tick]
      (init 0, \<lambda>n. n mod 2))) = ''asleep'' \<and>
   state (update_state \<lparr>hunger = 90, happiness = 10, age = 0, is_asleep = True,
      state = ''neutral'', last_tick = 0\<rparr>) = ''asleep'' \<and>
   state (fst (step Tick
      (run [Play, Play, Play, ToggleSleep, Tick, Tick, Tick, Tick, Tick, Tick]
        (init 0, \<lambda>n. n mod 2)))) = ''asleep''"
proof -
  let ?cs = "[Play, Play, Play, ToggleSleep, Tick, Tick, Tick, Tick, Tick, Tick]"
  have run: "fst (run ?cs (init 0, \<lambda>n. n mod 2)) =
      \<lparr>hunger = 86, happiness = 100, age = 6, is_asleep = True, state = ''asleep'',
       last_tick = 0\<rparr>"
    by (simp add: init_def play_def toggle_sleep_def update_tick_def update_state_def
        randint_def Let_def)
  from C3_asleep_precedence [of ?cs 0 "\<lambda>n. n mod 2"
      "\<lparr>hunger = 90, happiness = 10, age = 0, is_asleep = True, state = ''neutral'',
        last_tick = 0\<rparr>" Tick]
  show ?thesis
    by (simp del: run.simps add: run)
qed

text \<open>
  C4. In every state reachable from the constructor's pet, the state attribute is what
  the derivation rule of the specification gives for the current hunger, happiness and
  sleep flag (asleep; else dead when hunger is above 85 or happiness below 15; else
  hungry above 70; else sad below 30; else happy above 80; else neutral).
  \<^verbatim>\<open>update_state\<close> computes that rule and changes nothing else, and every call either
  leaves the pet exactly as it was or returns it with the state derived afresh. This
  holds for the class of either file.
\<close>

theorem C4_state_is_derived:
  "state (fst (run cs (init now, r))) =
     spec_derive_state (hunger (fst (run cs (init now, r))))
       (happiness (fst (run cs (init now, r)))) (is_asleep (fst (run cs (init now, r)))) \<and>
   state (fst (run_sim cs (init now, r))) =
     spec_derive_state (hunger (fst (run_sim cs (init now, r))))
       (happiness (fst (run_sim cs (init now, r))))
       (is_asleep (fst (run_sim cs (init now, r)))) \<and>
   update_state q = q\<lparr>state := spec_derive_state (hunger q) (happiness q) (is_asleep q)\<rparr> \<and>
   update_state_sim q =
     q\<lparr>state := spec_derive_state (hunger q) (happiness q) (is_asleep q)\<rparr> \<and>
   (fst (update_tick p r) = p \<or> derived (fst (update_tick p r))) \<and>
   (snd (feed p) = p \<or> derived (snd (feed p))) \<and>
   (snd (play p) = p \<or> derived (snd (play p))) \<and>
   (snd (toggle_sleep p) = p \<or> derived (snd (toggle_sleep p))) \<and>
   (fst (update_tick_sim p r) = p \<or> derived (fst (update_tick_sim p r))) \<and>
   (snd (feed_sim p) = p \<or> derived (snd (feed_sim p))) \<and>
   (snd (play_sim p) = p \<or> derived (snd (play_sim p))) \<and>
   (snd (toggle_sleep_sim p) = p \<or> derived (snd (toggle_sleep_sim p)))"
proof -
  have reach: "derived (fst (run cs (init now, r)))"
    by (rule derived_reachable)
  have us: "update_state q =
      q\<lparr>state := spec_derive_state (hunger q) (happiness q) (is_asleep q)\<rparr>"
    by (simp add: update_state_def spec_derive_state_def)
  have tick: "fst (update_tick p r) = p \<or> derived (fst (update_tick p r))"
    by (cases "state p = ''dead''") (simp_all add: update_tick_dead derived_update_tick_alive)
  have feed: "snd (feed p) = p \<or> derived (snd (feed p))"
    by (simp add: feed_def Let_def)
  have play: "snd (play p) = p \<or> derived (snd (play p))"
    by (simp add: play_def Let_def)
  have toggle: "snd (toggle_sleep p) = p \<or> derived (snd (toggle_sleep p))"
    by (simp add: toggle_sleep_def)
  have feed_sim: "snd (feed_sim p) = p \<or> derived (snd (feed_sim p))"
    by (simp add: feed_sim_def Let_def update_state_sim_eq)
  have play_sim: "snd (play_sim p) = p \<or> derived (snd (play_sim p))"
    by (simp add: play_sim_def Let_def update_state_sim_eq)
  from reach have "state (fst (run cs (init now, r))) =
     spec_derive_state (hunger (fst (run cs (init now, r))))
       (happiness (fst (run cs (init now, r)))) (is_asleep (fst (run cs (init now, r))))"
    by (simp add: derived_def)
  with us tick feed play toggle feed_sim play_sim show ?thesis
    by (simp add: run_sim_reachable update_state_sim_eq update_tick_sim_eq
        toggle_sleep_sim_eq)
qed

text \<open>
  C5. For a pet that is not dead, \<^verbatim>\<open>update_tick\<close> adds exactly 1 to the age and
  leaves the sleep flag alone. The random draws are explicit inputs. Asleep: the gate is
  a draw from 1 to 6 and fires when it is 1 (one raw residue in six); when it fires, a
  draw from 0 to 1 is added to hunger and happiness becomes the minimum of 100 and
  happiness plus 1; otherwise no statistic is touched. Awake: the gate is a draw from
  1 to 2 and fires when it is 1 (one raw residue in two); when it fires, a draw from 1 to
  2 is added to hunger and another draw from 1 to 2 is taken from happiness; otherwise
  no statistic is touched. Then both statistics are clamped to 0..100 (which changes
  nothing when no draw fired and they were in range), and the state is derived afresh.
\<close>

theorem C5_update_tick:
  assumes "state p \<noteq> ''dead''"
  shows
    "age (fst (update_tick p r)) = age p + 1 \<and>
     is_asleep (fst (update_tick p r)) = is_asleep p \<and>
     last_tick (fst (update_tick p r)) = last_tick p \<and>
     state (fst (update_tick p r)) =
       spec_derive_state (hunger (fst (update_tick p r))) (happiness (fst (update_tick p r)))
         (is_asleep p) \<and>
     1 \<le> fst (randint 1 6 r) \<and> fst (randint 1 6 r) \<le> 6 \<and>
     (fst (randint 1 6 r) = 1 \<longleftrightarrow> r 0 mod 6 = 0) \<and>
     0 \<le> fst (randint 0 1 (snd (randint 1 6 r))) \<and>
     fst (randint 0 1 (snd (randint 1 6 r))) \<le> 1 \<and>
     (is_asleep p \<and> fst (randint 1 6 r) = 1 \<longrightarrow>
        hunger (fst (update_tick p r)) =
          max 0 (min 100 (hunger p + fst (randint 0 1 (snd (randint 1 6 r))))) \<and>
        happiness (fst (update_tick p r)) = max 0 (min 100 (min 100 (happiness p + 1))) \<and>
        snd (update_tick p r) = snd (randint 0 1 (snd (randint 1 6 r)))) \<and>
     (is_asleep p \<and> fst (randint 1 6 r) \<noteq> 1 \<longrightarrow>
        hunger (fst (update_tick p r)) = max 0 (min 100 (hunger p)) \<and>
        happiness (fst (update_tick p r)) = max 0 (min 100 (happiness p)) \<and>
        snd (update_tick p r) = snd (randint 1 6 r)) \<and>
     1 \<le> fst (randint 1 2 r) \<and> fst (randint 1 2 r) \<le> 2 \<and>
     (fst (randint 1 2 r) = 1 \<longleftrightarrow> r 0 mod 2 = 0) \<and>
     1 \<le> fst (randint 1 2 (snd (randint 1 2 r))) \<and>
     fst (randint 1 2 (snd (randint 1 2 r))) \<le> 2 \<and>
     1 \<le> fst (randint 1 2 (snd (randint 1 2 (snd (randint 1 2 r))))) \<and>
     fst (randint 1 2 (snd (randint 1 2 (snd (randint 1 2 r))))) \<le> 2 \<and>
     (\<not> is_asleep p \<and> fst (randint 1 2 r) = 1 \<longrightarrow>
        hunger (fst (update_tick p r)) =
          max 0 (min 100 (hunger p + fst (randint 1 2 (snd (randint 1 2 r))))) \<and>
        happiness (fst (update_tick p r)) =
          max 0 (min 100
            (happiness p - fst (randint 1 2 (snd (randint 1 2 (snd (randint 1 2 r))))))) \<and>
        snd (update_tick p r) = snd (randint 1 2 (snd (randint 1 2 (snd (randint 1 2 r)))))) \<and>
     (\<not> is_asleep p \<and> fst (randint 1 2 r) \<noteq> 1 \<longrightarrow>
        hunger (fst (update_tick p r)) = max 0 (min 100 (hunger p)) \<and>
        happiness (fst (update_tick p r)) = max 0 (min 100 (happiness p)) \<and>
        snd (update_tick p r) = snd (randint 1 2 r)) \<and>
     (0 \<le> hunger p \<and> hunger p \<le> 100 \<and> 0 \<le> happiness p \<and> happiness p \<le> 100 \<and>
      fst (randint 1 (if is_asleep p then 6 else 2) r) \<noteq> 1 \<longrightarrow>
        hunger (fst (update_tick p r)) = hunger p \<and>
        happiness (fst (update_tick p r)) = happiness p)"
proof -
  have fields: "age (fst (update_tick p r)) = age p + 1 \<and>
      is_asleep (fst (update_tick p r)) = is_asleep p \<and>
      last_tick (fst (update_tick p r)) = last_tick p"
    using assms by (simp add: update_tick_def Let_def case_prod_beta)
  have "derived (fst (update_tick p r))"
    using assms by (rule derived_update_tick_alive)
  then have st: "state (fst (update_tick p r)) =
      spec_derive_state (hunger (fst (update_tick p r))) (happiness (fst (update_tick p r)))
        (is_asleep p)"
    by (simp add: derived_def is_asleep_update_tick)
  have ranges: "1 \<le> fst (randint 1 6 r) \<and> fst (randint 1 6 r) \<le> 6 \<and>
      0 \<le> fst (randint 0 1 (snd (randint 1 6 r))) \<and>
      fst (randint 0 1 (snd (randint 1 6 r))) \<le> 1 \<and>
      1 \<le> fst (randint 1 2 r) \<and> fst (randint 1 2 r) \<le> 2 \<and>
      1 \<le> fst (randint 1 2 (snd (randint 1 2 r))) \<and>
      fst (randint 1 2 (snd (randint 1 2 r))) \<le> 2 \<and>
      1 \<le> fst (randint 1 2 (snd (randint 1 2 (snd (randint 1 2 r))))) \<and>
      fst (randint 1 2 (snd (randint 1 2 (snd (randint 1 2 r))))) \<le> 2"
    by (simp add: randint_range)
  have asleep_fire: "hunger (fst (update_tick p r)) =
        max 0 (min 100 (hunger p + fst (randint 0 1 (snd (randint 1 6 r))))) \<and>
      happiness (fst (update_tick p r)) = max 0 (min 100 (min 100 (happiness p + 1))) \<and>
      snd (update_tick p r) = snd (randint 0 1 (snd (randint 1 6 r)))"
    if "is_asleep p" "fst (randint 1 6 r) = 1"
    using assms that by (simp add: update_tick_def Let_def case_prod_beta)
  have asleep_idle: "hunger (fst (update_tick p r)) = max 0 (min 100 (hunger p)) \<and>
      happiness (fst (update_tick p r)) = max 0 (min 100 (happiness p)) \<and>
      snd (update_tick p r) = snd (randint 1 6 r)"
    if "is_asleep p" "fst (randint 1 6 r) \<noteq> 1"
    using assms that by (simp add: update_tick_def Let_def case_prod_beta)
  have awake_fire: "hunger (fst (update_tick p r)) =
        max 0 (min 100 (hunger p + fst (randint 1 2 (snd (randint 1 2 r))))) \<and>
      happiness (fst (update_tick p r)) =
        max 0 (min 100
          (happiness p - fst (randint 1 2 (snd (randint 1 2 (snd (randint 1 2 r))))))) \<and>
      snd (update_tick p r) = snd (randint 1 2 (snd (randint 1 2 (snd (randint 1 2 r)))))"
    if "\<not> is_asleep p" "fst (randint 1 2 r) = 1"
    using assms that by (simp add: update_tick_def Let_def case_prod_beta)
  have awake_idle: "hunger (fst (update_tick p r)) = max 0 (min 100 (hunger p)) \<and>
      happiness (fst (update_tick p r)) = max 0 (min 100 (happiness p)) \<and>
      snd (update_tick p r) = snd (randint 1 2 r)"
    if "\<not> is_asleep p" "fst (randint 1 2 r) \<noteq> 1"
    using assms that by (simp add: update_tick_def Let_def case_prod_beta)
  have idle: "hunger (fst (update_tick p r)) = hunger p \<and>
      happiness (fst (update_tick p r)) = happiness p"
    if "0 \<le> hunger p" "hunger p \<le> 100" "0 \<le> happiness p" "happiness p \<le> 100"
      "fst (randint 1 (if is_asleep p then 6 else 2) r) \<noteq> 1"
  proof (cases "is_asleep p")
    case True
    with that asleep_idle show ?thesis by simp
  next
    case False
    with that awake_idle show ?thesis by simp
  qed
  show ?thesis
    using fields st ranges asleep_fire asleep_idle awake_fire awake_idle idle
      gate_asleep [of r] gate_awake [of r]
    by blast
qed

theorem C5_update_tick_witness:
  "state (init 0) \<noteq> ''dead'' \<and>
   age (fst (update_tick (init 0) (\<lambda>n. 0))) = 1 \<and>
   hunger (fst (update_tick (init 0) (\<lambda>n. 0))) = 51 \<and>
   happiness (fst (update_tick (init 0) (\<lambda>n. 0))) = 49 \<and>
   state (fst (update_tick (init 0) (\<lambda>n. 0))) = ''neutral'' \<and>
   hunger (fst (update_tick (init 0) (\<lambda>n. 1))) = 50 \<and>
   happiness (fst (update_tick (init 0) (\<lambda>n. 1))) = 50 \<and>
   age (fst (update_tick ((init 0)\<lparr>is_asleep := True, state := ''asleep''\<rparr>)
     (\<lambda>n. n mod 2))) = 1 \<and>
   hunger (fst (update_tick ((init 0)\<lparr>is_asleep := True, state := ''asleep''\<rparr>)
     (\<lambda>n. n mod 2))) = 51 \<and>
   happiness (fst (update_tick ((init 0)\<lparr>is_asleep := True, state := ''asleep''\<rparr>)
     (\<lambda>n. n mod 2))) = 51 \<and>
   state (fst (update_tick ((init 0)\<lparr>is_asleep := True, state := ''asleep''\<rparr>)
     (\<lambda>n. n mod 2))) = ''asleep''"
proof -
  have alive: "state (init 0) \<noteq> ''dead''"
    by (simp add: init_def)
  have alive': "state ((init 0)\<lparr>is_asleep := True, state := ''asleep''\<rparr>) \<noteq> ''dead''"
    by simp
  from C5_update_tick [OF alive, of "\<lambda>n. 0"] C5_update_tick [OF alive, of "\<lambda>n. 1"]
    C5_update_tick [OF alive', of "\<lambda>n. n mod 2"]
  show ?thesis
    by (simp add: init_def randint_def spec_derive_state_def)
qed

text \<open>
  C6. \<^verbatim>\<open>feed\<close> and \<^verbatim>\<open>play\<close> return false, with the pet unchanged, exactly when
  the pet is asleep or dead; \<^verbatim>\<open>toggle_sleep\<close> returns false, with the pet unchanged,
  exactly when the pet is dead. A call that reports failure has mutated nothing, and a
  call that reports success has made its mutation: \<^verbatim>\<open>feed\<close> has taken 25 from
  hunger and added 5 to happiness, \<^verbatim>\<open>play\<close> has added 10 to hunger and 20 to
  happiness (each clamped as the file clamps it, which on statistics between 0 and 100
  is the maximum with 0 for the subtraction and the minimum with 100 for the
  additions), \<^verbatim>\<open>toggle_sleep\<close> has flipped the sleep flag, and each has derived the
  state afresh and left the age alone. The operations are total: each returns a flag
  and a pet on every input, there is no branch that raises. For the pet with hunger 90
  and happiness 50 that is awake, the derived state is dead and \<^verbatim>\<open>feed\<close> then fails
  and changes nothing. This holds for the class of either file.
\<close>

theorem C6_guards:
  "(feed p = (False, p) \<longleftrightarrow> is_asleep p \<or> state p = ''dead'') \<and>
   (\<not> fst (feed p) \<longleftrightarrow> is_asleep p \<or> state p = ''dead'') \<and>
   (fst (feed p) \<or> snd (feed p) = p) \<and>
   (play p = (False, p) \<longleftrightarrow> is_asleep p \<or> state p = ''dead'') \<and>
   (\<not> fst (play p) \<longleftrightarrow> is_asleep p \<or> state p = ''dead'') \<and>
   (fst (play p) \<or> snd (play p) = p) \<and>
   (toggle_sleep p = (False, p) \<longleftrightarrow> state p = ''dead'') \<and>
   (\<not> fst (toggle_sleep p) \<longleftrightarrow> state p = ''dead'') \<and>
   (fst (toggle_sleep p) \<or> snd (toggle_sleep p) = p) \<and>
   (feed_sim p = (False, p) \<longleftrightarrow> is_asleep p \<or> state p = ''dead'') \<and>
   (\<not> fst (feed_sim p) \<longleftrightarrow> is_asleep p \<or> state p = ''dead'') \<and>
   (fst (feed_sim p) \<or> snd (feed_sim p) = p) \<and>
   (play_sim p = (False, p) \<longleftrightarrow> is_asleep p \<or> state p = ''dead'') \<and>
   (\<not> fst (play_sim p) \<longleftrightarrow> is_asleep p \<or> state p = ''dead'') \<and>
   (fst (play_sim p) \<or> snd (play_sim p) = p) \<and>
   (toggle_sleep_sim p = (False, p) \<longleftrightarrow> state p = ''dead'') \<and>
   (\<not> fst (toggle_sleep_sim p) \<longleftrightarrow> state p = ''dead'') \<and>
   (fst (toggle_sleep_sim p) \<or> snd (toggle_sleep_sim p) = p) \<and>
   state (update_state \<lparr>hunger = 90, happiness = 50, age = a, is_asleep = False,
     state = s, last_tick = t\<rparr>) = ''dead'' \<and>
   feed (update_state \<lparr>hunger = 90, happiness = 50, age = a, is_asleep = False,
     state = s, last_tick = t\<rparr>) =
     (False, \<lparr>hunger = 90, happiness = 50, age = a, is_asleep = False,
       state = ''dead'', last_tick = t\<rparr>) \<and>
   feed_sim (update_state_sim \<lparr>hunger = 90, happiness = 50, age = a, is_asleep = False,
     state = s, last_tick = t\<rparr>) =
     (False, \<lparr>hunger = 90, happiness = 50, age = a, is_asleep = False,
       state = ''dead'', last_tick = t\<rparr>) \<and>
   (fst (feed p) \<longrightarrow>
      hunger (snd (feed p)) = max 0 (min 100 (hunger p - 25)) \<and>
      happiness (snd (feed p)) = max 0 (min 100 (happiness p + 5)) \<and>
      state (snd (feed p)) =
        spec_derive_state (hunger (snd (feed p))) (happiness (snd (feed p))) (is_asleep p) \<and>
      age (snd (feed p)) = age p \<and>
      is_asleep (snd (feed p)) = is_asleep p \<and>
      last_tick (snd (feed p)) = last_tick p) \<and>
   (fst (play p) \<longrightarrow>
      hunger (snd (play p)) = max 0 (min 100 (hunger p + 10)) \<and>
      happiness (snd (play p)) = max 0 (min 100 (happiness p + 20)) \<and>
      state (snd (play p)) =
        spec_derive_state (hunger (snd (play p))) (happiness (snd (play p))) (is_asleep p) \<and>
      age (snd (play p)) = age p \<and>
      is_asleep (snd (play p)) = is_asleep p \<and>
      last_tick (snd (play p)) = last_tick p) \<and>
   (fst (toggle_sleep p) \<longrightarrow>
      is_asleep (snd (toggle_sleep p)) = (\<not> is_asleep p) \<and>
      hunger (snd (toggle_sleep p)) = hunger p \<and>
      happiness (snd (toggle_sleep p)) = happiness p \<and>
      state (snd (toggle_sleep p)) = spec_derive_state (hunger p) (happiness p) (\<not> is_asleep p) \<and>
      age (snd (toggle_sleep p)) = age p \<and>
      last_tick (snd (toggle_sleep p)) = last_tick p) \<and>
   (fst (feed_sim p) \<longrightarrow>
      hunger (snd (feed_sim p)) = max 0 (hunger p - 25) \<and>
      happiness (snd (feed_sim p)) = min 100 (happiness p + 5) \<and>
      state (snd (feed_sim p)) =
        spec_derive_state (hunger (snd (feed_sim p))) (happiness (snd (feed_sim p))) (is_asleep p) \<and>
      age (snd (feed_sim p)) = age p \<and>
      is_asleep (snd (feed_sim p)) = is_asleep p \<and>
      last_tick (snd (feed_sim p)) = last_tick p) \<and>
   (fst (play_sim p) \<longrightarrow>
      hunger (snd (play_sim p)) = min 100 (hunger p + 10) \<and>
      happiness (snd (play_sim p)) = min 100 (happiness p + 20) \<and>
      state (snd (play_sim p)) =
        spec_derive_state (hunger (snd (play_sim p))) (happiness (snd (play_sim p))) (is_asleep p) \<and>
      age (snd (play_sim p)) = age p \<and>
      is_asleep (snd (play_sim p)) = is_asleep p \<and>
      last_tick (snd (play_sim p)) = last_tick p) \<and>
   (fst (toggle_sleep_sim p) \<longrightarrow>
      is_asleep (snd (toggle_sleep_sim p)) = (\<not> is_asleep p) \<and>
      hunger (snd (toggle_sleep_sim p)) = hunger p \<and>
      happiness (snd (toggle_sleep_sim p)) = happiness p \<and>
      state (snd (toggle_sleep_sim p)) = spec_derive_state (hunger p) (happiness p) (\<not> is_asleep p) \<and>
      age (snd (toggle_sleep_sim p)) = age p \<and>
      last_tick (snd (toggle_sleep_sim p)) = last_tick p) \<and>
   (fst (feed p) \<and>
    0 \<le> hunger p \<and> hunger p \<le> 100 \<and> 0 \<le> happiness p \<and> happiness p \<le> 100 \<longrightarrow>
      hunger (snd (feed p)) = max 0 (hunger p - 25) \<and> happiness (snd (feed p)) = min 100 (happiness p + 5)) \<and>
   (fst (play p) \<and>
    0 \<le> hunger p \<and> hunger p \<le> 100 \<and> 0 \<le> happiness p \<and> happiness p \<le> 100 \<longrightarrow>
      hunger (snd (play p)) = min 100 (hunger p + 10) \<and> happiness (snd (play p)) = min 100 (happiness p + 20)) \<and>
   (fst (feed_sim p) \<and>
    0 \<le> hunger p \<and> hunger p \<le> 100 \<and> 0 \<le> happiness p \<and> happiness p \<le> 100 \<longrightarrow>
      hunger (snd (feed_sim p)) = max 0 (hunger p - 25) \<and> happiness (snd (feed_sim p)) = min 100 (happiness p + 5)) \<and>
   (fst (play_sim p) \<and>
    0 \<le> hunger p \<and> hunger p \<le> 100 \<and> 0 \<le> happiness p \<and> happiness p \<le> 100 \<longrightarrow>
      hunger (snd (play_sim p)) = min 100 (hunger p + 10) \<and> happiness (snd (play_sim p)) = min 100 (happiness p + 20))"
proof -
  have s_feed: "(fst (feed p) \<longrightarrow>
      hunger (snd (feed p)) = max 0 (min 100 (hunger p - 25)) \<and>
      happiness (snd (feed p)) = max 0 (min 100 (happiness p + 5)) \<and>
      state (snd (feed p)) =
        spec_derive_state (hunger (snd (feed p))) (happiness (snd (feed p))) (is_asleep p) \<and>
      age (snd (feed p)) = age p \<and>
      is_asleep (snd (feed p)) = is_asleep p \<and>
      last_tick (snd (feed p)) = last_tick p)"
    by (simp add: feed_def Let_def state_update_state)
  have s_play: "(fst (play p) \<longrightarrow>
      hunger (snd (play p)) = max 0 (min 100 (hunger p + 10)) \<and>
      happiness (snd (play p)) = max 0 (min 100 (happiness p + 20)) \<and>
      state (snd (play p)) =
        spec_derive_state (hunger (snd (play p))) (happiness (snd (play p))) (is_asleep p) \<and>
      age (snd (play p)) = age p \<and>
      is_asleep (snd (play p)) = is_asleep p \<and>
      last_tick (snd (play p)) = last_tick p)"
    by (simp add: play_def Let_def state_update_state)
  have s_toggle: "(fst (toggle_sleep p) \<longrightarrow>
      is_asleep (snd (toggle_sleep p)) = (\<not> is_asleep p) \<and>
      hunger (snd (toggle_sleep p)) = hunger p \<and>
      happiness (snd (toggle_sleep p)) = happiness p \<and>
      state (snd (toggle_sleep p)) = spec_derive_state (hunger p) (happiness p) (\<not> is_asleep p) \<and>
      age (snd (toggle_sleep p)) = age p \<and>
      last_tick (snd (toggle_sleep p)) = last_tick p)"
    by (simp add: toggle_sleep_def state_update_state)
  have s_feed_sim: "(fst (feed_sim p) \<longrightarrow>
      hunger (snd (feed_sim p)) = max 0 (hunger p - 25) \<and>
      happiness (snd (feed_sim p)) = min 100 (happiness p + 5) \<and>
      state (snd (feed_sim p)) =
        spec_derive_state (hunger (snd (feed_sim p))) (happiness (snd (feed_sim p))) (is_asleep p) \<and>
      age (snd (feed_sim p)) = age p \<and>
      is_asleep (snd (feed_sim p)) = is_asleep p \<and>
      last_tick (snd (feed_sim p)) = last_tick p)"
    by (simp add: feed_sim_def Let_def update_state_sim_eq state_update_state)
  have s_play_sim: "(fst (play_sim p) \<longrightarrow>
      hunger (snd (play_sim p)) = min 100 (hunger p + 10) \<and>
      happiness (snd (play_sim p)) = min 100 (happiness p + 20) \<and>
      state (snd (play_sim p)) =
        spec_derive_state (hunger (snd (play_sim p))) (happiness (snd (play_sim p))) (is_asleep p) \<and>
      age (snd (play_sim p)) = age p \<and>
      is_asleep (snd (play_sim p)) = is_asleep p \<and>
      last_tick (snd (play_sim p)) = last_tick p)"
    by (simp add: play_sim_def Let_def update_state_sim_eq state_update_state)
  have s_toggle_sim: "(fst (toggle_sleep_sim p) \<longrightarrow>
      is_asleep (snd (toggle_sleep_sim p)) = (\<not> is_asleep p) \<and>
      hunger (snd (toggle_sleep_sim p)) = hunger p \<and>
      happiness (snd (toggle_sleep_sim p)) = happiness p \<and>
      state (snd (toggle_sleep_sim p)) = spec_derive_state (hunger p) (happiness p) (\<not> is_asleep p) \<and>
      age (snd (toggle_sleep_sim p)) = age p \<and>
      last_tick (snd (toggle_sleep_sim p)) = last_tick p)"
    by (simp add: toggle_sleep_sim_def update_state_sim_eq state_update_state)
  have d_feed: "(fst (feed p) \<and>
    0 \<le> hunger p \<and> hunger p \<le> 100 \<and> 0 \<le> happiness p \<and> happiness p \<le> 100 \<longrightarrow>
      hunger (snd (feed p)) = max 0 (hunger p - 25) \<and> happiness (snd (feed p)) = min 100 (happiness p + 5))"
    by (simp add: feed_def Let_def)
  have d_play: "(fst (play p) \<and>
    0 \<le> hunger p \<and> hunger p \<le> 100 \<and> 0 \<le> happiness p \<and> happiness p \<le> 100 \<longrightarrow>
      hunger (snd (play p)) = min 100 (hunger p + 10) \<and> happiness (snd (play p)) = min 100 (happiness p + 20))"
    by (simp add: play_def Let_def)
  have d_feed_sim: "(fst (feed_sim p) \<and>
    0 \<le> hunger p \<and> hunger p \<le> 100 \<and> 0 \<le> happiness p \<and> happiness p \<le> 100 \<longrightarrow>
      hunger (snd (feed_sim p)) = max 0 (hunger p - 25) \<and> happiness (snd (feed_sim p)) = min 100 (happiness p + 5))"
    by (simp add: feed_sim_def Let_def update_state_sim_eq)
  have d_play_sim: "(fst (play_sim p) \<and>
    0 \<le> hunger p \<and> hunger p \<le> 100 \<and> 0 \<le> happiness p \<and> happiness p \<le> 100 \<longrightarrow>
      hunger (snd (play_sim p)) = min 100 (hunger p + 10) \<and> happiness (snd (play_sim p)) = min 100 (happiness p + 20))"
    by (simp add: play_sim_def Let_def update_state_sim_eq)
  have success: "(fst (feed p) \<longrightarrow>
      hunger (snd (feed p)) = max 0 (min 100 (hunger p - 25)) \<and>
      happiness (snd (feed p)) = max 0 (min 100 (happiness p + 5)) \<and>
      state (snd (feed p)) =
        spec_derive_state (hunger (snd (feed p))) (happiness (snd (feed p))) (is_asleep p) \<and>
      age (snd (feed p)) = age p \<and>
      is_asleep (snd (feed p)) = is_asleep p \<and>
      last_tick (snd (feed p)) = last_tick p) \<and>
   (fst (play p) \<longrightarrow>
      hunger (snd (play p)) = max 0 (min 100 (hunger p + 10)) \<and>
      happiness (snd (play p)) = max 0 (min 100 (happiness p + 20)) \<and>
      state (snd (play p)) =
        spec_derive_state (hunger (snd (play p))) (happiness (snd (play p))) (is_asleep p) \<and>
      age (snd (play p)) = age p \<and>
      is_asleep (snd (play p)) = is_asleep p \<and>
      last_tick (snd (play p)) = last_tick p) \<and>
   (fst (toggle_sleep p) \<longrightarrow>
      is_asleep (snd (toggle_sleep p)) = (\<not> is_asleep p) \<and>
      hunger (snd (toggle_sleep p)) = hunger p \<and>
      happiness (snd (toggle_sleep p)) = happiness p \<and>
      state (snd (toggle_sleep p)) = spec_derive_state (hunger p) (happiness p) (\<not> is_asleep p) \<and>
      age (snd (toggle_sleep p)) = age p \<and>
      last_tick (snd (toggle_sleep p)) = last_tick p) \<and>
   (fst (feed_sim p) \<longrightarrow>
      hunger (snd (feed_sim p)) = max 0 (hunger p - 25) \<and>
      happiness (snd (feed_sim p)) = min 100 (happiness p + 5) \<and>
      state (snd (feed_sim p)) =
        spec_derive_state (hunger (snd (feed_sim p))) (happiness (snd (feed_sim p))) (is_asleep p) \<and>
      age (snd (feed_sim p)) = age p \<and>
      is_asleep (snd (feed_sim p)) = is_asleep p \<and>
      last_tick (snd (feed_sim p)) = last_tick p) \<and>
   (fst (play_sim p) \<longrightarrow>
      hunger (snd (play_sim p)) = min 100 (hunger p + 10) \<and>
      happiness (snd (play_sim p)) = min 100 (happiness p + 20) \<and>
      state (snd (play_sim p)) =
        spec_derive_state (hunger (snd (play_sim p))) (happiness (snd (play_sim p))) (is_asleep p) \<and>
      age (snd (play_sim p)) = age p \<and>
      is_asleep (snd (play_sim p)) = is_asleep p \<and>
      last_tick (snd (play_sim p)) = last_tick p) \<and>
   (fst (toggle_sleep_sim p) \<longrightarrow>
      is_asleep (snd (toggle_sleep_sim p)) = (\<not> is_asleep p) \<and>
      hunger (snd (toggle_sleep_sim p)) = hunger p \<and>
      happiness (snd (toggle_sleep_sim p)) = happiness p \<and>
      state (snd (toggle_sleep_sim p)) = spec_derive_state (hunger p) (happiness p) (\<not> is_asleep p) \<and>
      age (snd (toggle_sleep_sim p)) = age p \<and>
      last_tick (snd (toggle_sleep_sim p)) = last_tick p) \<and>
   (fst (feed p) \<and>
    0 \<le> hunger p \<and> hunger p \<le> 100 \<and> 0 \<le> happiness p \<and> happiness p \<le> 100 \<longrightarrow>
      hunger (snd (feed p)) = max 0 (hunger p - 25) \<and> happiness (snd (feed p)) = min 100 (happiness p + 5)) \<and>
   (fst (play p) \<and>
    0 \<le> hunger p \<and> hunger p \<le> 100 \<and> 0 \<le> happiness p \<and> happiness p \<le> 100 \<longrightarrow>
      hunger (snd (play p)) = min 100 (hunger p + 10) \<and> happiness (snd (play p)) = min 100 (happiness p + 20)) \<and>
   (fst (feed_sim p) \<and>
    0 \<le> hunger p \<and> hunger p \<le> 100 \<and> 0 \<le> happiness p \<and> happiness p \<le> 100 \<longrightarrow>
      hunger (snd (feed_sim p)) = max 0 (hunger p - 25) \<and> happiness (snd (feed_sim p)) = min 100 (happiness p + 5)) \<and>
   (fst (play_sim p) \<and>
    0 \<le> hunger p \<and> hunger p \<le> 100 \<and> 0 \<le> happiness p \<and> happiness p \<le> 100 \<longrightarrow>
      hunger (snd (play_sim p)) = min 100 (hunger p + 10) \<and> happiness (snd (play_sim p)) = min 100 (happiness p + 20))"
    by (rule conjI [OF s_feed conjI [OF s_play conjI [OF s_toggle conjI [OF s_feed_sim conjI [OF s_play_sim conjI [OF s_toggle_sim conjI [OF d_feed conjI [OF d_play conjI [OF d_feed_sim d_play_sim]]]]]]]]])
  have guards: "(feed p = (False, p) \<longleftrightarrow> is_asleep p \<or> state p = ''dead'') \<and>
   (\<not> fst (feed p) \<longleftrightarrow> is_asleep p \<or> state p = ''dead'') \<and>
   (fst (feed p) \<or> snd (feed p) = p) \<and>
   (play p = (False, p) \<longleftrightarrow> is_asleep p \<or> state p = ''dead'') \<and>
   (\<not> fst (play p) \<longleftrightarrow> is_asleep p \<or> state p = ''dead'') \<and>
   (fst (play p) \<or> snd (play p) = p) \<and>
   (toggle_sleep p = (False, p) \<longleftrightarrow> state p = ''dead'') \<and>
   (\<not> fst (toggle_sleep p) \<longleftrightarrow> state p = ''dead'') \<and>
   (fst (toggle_sleep p) \<or> snd (toggle_sleep p) = p) \<and>
   (feed_sim p = (False, p) \<longleftrightarrow> is_asleep p \<or> state p = ''dead'') \<and>
   (\<not> fst (feed_sim p) \<longleftrightarrow> is_asleep p \<or> state p = ''dead'') \<and>
   (fst (feed_sim p) \<or> snd (feed_sim p) = p) \<and>
   (play_sim p = (False, p) \<longleftrightarrow> is_asleep p \<or> state p = ''dead'') \<and>
   (\<not> fst (play_sim p) \<longleftrightarrow> is_asleep p \<or> state p = ''dead'') \<and>
   (fst (play_sim p) \<or> snd (play_sim p) = p) \<and>
   (toggle_sleep_sim p = (False, p) \<longleftrightarrow> state p = ''dead'') \<and>
   (\<not> fst (toggle_sleep_sim p) \<longleftrightarrow> state p = ''dead'') \<and>
   (fst (toggle_sleep_sim p) \<or> snd (toggle_sleep_sim p) = p) \<and>
   state (update_state \<lparr>hunger = 90, happiness = 50, age = a, is_asleep = False,
     state = s, last_tick = t\<rparr>) = ''dead'' \<and>
   feed (update_state \<lparr>hunger = 90, happiness = 50, age = a, is_asleep = False,
     state = s, last_tick = t\<rparr>) =
     (False, \<lparr>hunger = 90, happiness = 50, age = a, is_asleep = False,
       state = ''dead'', last_tick = t\<rparr>) \<and>
   feed_sim (update_state_sim \<lparr>hunger = 90, happiness = 50, age = a, is_asleep = False,
     state = s, last_tick = t\<rparr>) =
     (False, \<lparr>hunger = 90, happiness = 50, age = a, is_asleep = False,
       state = ''dead'', last_tick = t\<rparr>)"
    by (rule action_guards)
  show ?thesis
    using guards success by (simp only: conj_assoc)
qed

theorem C6_guards_witness:
  "fst (feed (init 0)) \<and>
   hunger (snd (feed (init 0))) = 25 \<and> happiness (snd (feed (init 0))) = 55 \<and>
   state (snd (feed (init 0))) = ''neutral'' \<and>
   fst (play (init 0)) \<and>
   hunger (snd (play (init 0))) = 60 \<and> happiness (snd (play (init 0))) = 70 \<and>
   fst (toggle_sleep (init 0)) \<and>
   is_asleep (snd (toggle_sleep (init 0))) \<and>
   state (snd (toggle_sleep (init 0))) = ''asleep'' \<and>
   fst (feed_sim (init 0)) \<and>
   hunger (snd (feed_sim (init 0))) = 25 \<and> happiness (snd (feed_sim (init 0))) = 55 \<and>
   fst (play_sim (init 0)) \<and>
   hunger (snd (play_sim (init 0))) = 60 \<and> happiness (snd (play_sim (init 0))) = 70 \<and>
   fst (toggle_sleep_sim (init 0)) \<and>
   is_asleep (snd (toggle_sleep_sim (init 0))) \<and>
   \<not> fst (feed ((init 0)\<lparr>is_asleep := True\<rparr>)) \<and>
   snd (feed ((init 0)\<lparr>is_asleep := True\<rparr>)) = (init 0)\<lparr>is_asleep := True\<rparr>"
  using C6_guards [of "init 0" 0 "''neutral''" 0]
    C6_guards [of "(init 0)\<lparr>is_asleep := True\<rparr>" 0 "''neutral''" 0]
  by (simp add: init_def feed_def play_def toggle_sleep_def feed_sim_def play_sim_def
      toggle_sleep_sim_def update_state_def update_state_sim_def spec_derive_state_def)

text \<open>
  C7. For an awake pet that is not dead, with both statistics between 0 and 100,
  \<^verbatim>\<open>feed\<close> returns true, sets hunger to the maximum of 0 and hunger minus 25, sets
  happiness to the minimum of 100 and happiness plus 5, derives the state afresh and
  leaves the age and the sleep flag alone. On the constructor's pet it gives hunger 25,
  happiness 55 and state neutral. This holds for the class of either file.
\<close>

theorem C7_feed:
  "(\<not> is_asleep p \<and> state p \<noteq> ''dead'' \<and>
    0 \<le> hunger p \<and> hunger p \<le> 100 \<and> 0 \<le> happiness p \<and> happiness p \<le> 100 \<longrightarrow>
      fst (feed p) \<and>
      hunger (snd (feed p)) = max 0 (hunger p - 25) \<and>
      happiness (snd (feed p)) = min 100 (happiness p + 5) \<and>
      state (snd (feed p)) =
        spec_derive_state (max 0 (hunger p - 25)) (min 100 (happiness p + 5)) False \<and>
      age (snd (feed p)) = age p \<and>
      is_asleep (snd (feed p)) = is_asleep p \<and>
      last_tick (snd (feed p)) = last_tick p \<and>
      feed_sim p = feed p) \<and>
   feed (init now) =
     (True, \<lparr>hunger = 25, happiness = 55, age = 0, is_asleep = False, state = ''neutral'',
       last_tick = now\<rparr>) \<and>
   feed_sim (init now) =
     (True, \<lparr>hunger = 25, happiness = 55, age = 0, is_asleep = False, state = ''neutral'',
       last_tick = now\<rparr>)"
proof -
  have gen: "fst (feed p) \<and>
      hunger (snd (feed p)) = max 0 (hunger p - 25) \<and>
      happiness (snd (feed p)) = min 100 (happiness p + 5) \<and>
      state (snd (feed p)) =
        spec_derive_state (max 0 (hunger p - 25)) (min 100 (happiness p + 5)) False \<and>
      age (snd (feed p)) = age p \<and>
      is_asleep (snd (feed p)) = is_asleep p \<and>
      last_tick (snd (feed p)) = last_tick p"
    if "\<not> is_asleep p" "state p \<noteq> ''dead''" "0 \<le> hunger p" "hunger p \<le> 100"
      "0 \<le> happiness p" "happiness p \<le> 100"
    using that by (simp add: feed_def Let_def state_update_state)
  have sim: "feed_sim p = feed p"
    if "0 \<le> hunger p" "hunger p \<le> 100" "0 \<le> happiness p" "happiness p \<le> 100"
    using that by (simp add: feed_sim_eq in_range_def)
  have fresh: "feed (init now) =
      (True, \<lparr>hunger = 25, happiness = 55, age = 0, is_asleep = False, state = ''neutral'',
        last_tick = now\<rparr>)"
    by (simp add: feed_def init_def update_state_def)
  have "feed_sim (init now) = feed (init now)"
    by (rule feed_sim_eq) (rule in_range_init)
  with gen sim fresh show ?thesis
    by simp
qed

theorem C7_feed_witness:
  "\<not> is_asleep \<lparr>hunger = 10, happiness = 98, age = 7, is_asleep = False,
      state = ''happy'', last_tick = 0\<rparr> \<and>
   feed \<lparr>hunger = 10, happiness = 98, age = 7, is_asleep = False, state = ''happy'',
      last_tick = 0\<rparr> =
     (True, \<lparr>hunger = 0, happiness = 100, age = 7, is_asleep = False, state = ''happy'',
       last_tick = 0\<rparr>) \<and>
   feed_sim \<lparr>hunger = 10, happiness = 98, age = 7, is_asleep = False, state = ''happy'',
      last_tick = 0\<rparr> =
     (True, \<lparr>hunger = 0, happiness = 100, age = 7, is_asleep = False, state = ''happy'',
       last_tick = 0\<rparr>)"
  using C7_feed [of "\<lparr>hunger = 10, happiness = 98, age = 7, is_asleep = False,
      state = ''happy'', last_tick = 0\<rparr>" 0]
  by (simp add: feed_def feed_sim_def update_state_def update_state_sim_def
      spec_derive_state_def init_def)

text \<open>
  C8. For an awake pet that is not dead, with both statistics between 0 and 100,
  \<^verbatim>\<open>play\<close> returns true, sets happiness to the minimum of 100 and happiness plus 20,
  sets hunger to the minimum of 100 and hunger plus 10, derives the state afresh and
  leaves the age and the sleep flag alone. With happiness 95 the result is happiness 100,
  not 115, and hunger is the minimum of 100 and hunger plus 10: it goes up by 10 when it
  was at most 90 before the call, and stops at 100 otherwise. This holds for the class
  of either file.
\<close>

theorem C8_play:
  "(\<not> is_asleep p \<and> state p \<noteq> ''dead'' \<and>
    0 \<le> hunger p \<and> hunger p \<le> 100 \<and> 0 \<le> happiness p \<and> happiness p \<le> 100 \<longrightarrow>
      fst (play p) \<and>
      happiness (snd (play p)) = min 100 (happiness p + 20) \<and>
      hunger (snd (play p)) = min 100 (hunger p + 10) \<and>
      state (snd (play p)) =
        spec_derive_state (min 100 (hunger p + 10)) (min 100 (happiness p + 20)) False \<and>
      age (snd (play p)) = age p \<and>
      is_asleep (snd (play p)) = is_asleep p \<and>
      last_tick (snd (play p)) = last_tick p \<and>
      play_sim p = play p) \<and>
   (\<not> is_asleep p \<and> state p \<noteq> ''dead'' \<and>
    0 \<le> hunger p \<and> hunger p \<le> 100 \<and> happiness p = 95 \<longrightarrow>
      fst (play p) \<and> happiness (snd (play p)) = 100 \<and>
      hunger (snd (play p)) = min 100 (hunger p + 10) \<and> play_sim p = play p) \<and>
   (\<not> is_asleep p \<and> state p \<noteq> ''dead'' \<and>
    0 \<le> hunger p \<and> hunger p \<le> 90 \<and> happiness p = 95 \<longrightarrow>
      fst (play p) \<and> happiness (snd (play p)) = 100 \<and>
      hunger (snd (play p)) = hunger p + 10 \<and> play_sim p = play p) \<and>
   play ((init now)\<lparr>happiness := 95\<rparr>) =
     (True, \<lparr>hunger = 60, happiness = 100, age = 0, is_asleep = False, state = ''happy'',
       last_tick = now\<rparr>) \<and>
   play_sim ((init now)\<lparr>happiness := 95\<rparr>) =
     (True, \<lparr>hunger = 60, happiness = 100, age = 0, is_asleep = False, state = ''happy'',
       last_tick = now\<rparr>)"
proof -
  have gen: "fst (play p) \<and>
      happiness (snd (play p)) = min 100 (happiness p + 20) \<and>
      hunger (snd (play p)) = min 100 (hunger p + 10) \<and>
      state (snd (play p)) =
        spec_derive_state (min 100 (hunger p + 10)) (min 100 (happiness p + 20)) False \<and>
      age (snd (play p)) = age p \<and>
      is_asleep (snd (play p)) = is_asleep p \<and>
      last_tick (snd (play p)) = last_tick p"
    if "\<not> is_asleep p" "state p \<noteq> ''dead''" "0 \<le> hunger p" "hunger p \<le> 100"
      "0 \<le> happiness p" "happiness p \<le> 100"
    using that by (simp add: play_def Let_def state_update_state)
  have sim: "play_sim p = play p"
    if "0 \<le> hunger p" "hunger p \<le> 100" "0 \<le> happiness p" "happiness p \<le> 100"
    using that by (simp add: play_sim_eq in_range_def)
  have high: "fst (play p) \<and> happiness (snd (play p)) = 100 \<and>
      hunger (snd (play p)) = hunger p + 10 \<and> play_sim p = play p"
    if "\<not> is_asleep p" "state p \<noteq> ''dead''" "0 \<le> hunger p" "hunger p \<le> 90"
      "happiness p = 95"
  proof -
    from that have "hunger p \<le> 100" "0 \<le> happiness p" "happiness p \<le> 100"
      by simp_all
    with that gen sim show ?thesis
      by simp
  qed
  have fresh: "play ((init now)\<lparr>happiness := 95\<rparr>) =
      (True, \<lparr>hunger = 60, happiness = 100, age = 0, is_asleep = False, state = ''happy'',
        last_tick = now\<rparr>)"
    by (simp add: play_def init_def update_state_def)
  have fresh_sim: "play_sim ((init now)\<lparr>happiness := 95\<rparr>) =
      (True, \<lparr>hunger = 60, happiness = 100, age = 0, is_asleep = False, state = ''happy'',
        last_tick = now\<rparr>)"
    by (simp add: play_sim_def init_def update_state_sim_def)
  have general: "\<not> is_asleep p \<and> state p \<noteq> ''dead'' \<and>
      0 \<le> hunger p \<and> hunger p \<le> 100 \<and> 0 \<le> happiness p \<and> happiness p \<le> 100 \<longrightarrow>
      fst (play p) \<and>
      happiness (snd (play p)) = min 100 (happiness p + 20) \<and>
      hunger (snd (play p)) = min 100 (hunger p + 10) \<and>
      state (snd (play p)) =
        spec_derive_state (min 100 (hunger p + 10)) (min 100 (happiness p + 20)) False \<and>
      age (snd (play p)) = age p \<and>
      is_asleep (snd (play p)) = is_asleep p \<and>
      last_tick (snd (play p)) = last_tick p \<and>
      play_sim p = play p"
    using gen sim by blast
  have special: "\<not> is_asleep p \<and> state p \<noteq> ''dead'' \<and>
      0 \<le> hunger p \<and> hunger p \<le> 90 \<and> happiness p = 95 \<longrightarrow>
      fst (play p) \<and> happiness (snd (play p)) = 100 \<and>
      hunger (snd (play p)) = hunger p + 10 \<and> play_sim p = play p"
    using high by blast
  have clamped: "\<not> is_asleep p \<and> state p \<noteq> ''dead'' \<and>
      0 \<le> hunger p \<and> hunger p \<le> 100 \<and> happiness p = 95 \<longrightarrow>
      fst (play p) \<and> happiness (snd (play p)) = 100 \<and>
      hunger (snd (play p)) = min 100 (hunger p + 10) \<and> play_sim p = play p"
  proof
    assume h: "\<not> is_asleep p \<and> state p \<noteq> ''dead'' \<and>
      0 \<le> hunger p \<and> hunger p \<le> 100 \<and> happiness p = 95"
    then have "0 \<le> happiness p" "happiness p \<le> 100"
      by simp_all
    with h gen sim have "fst (play p) \<and>
        happiness (snd (play p)) = min 100 (happiness p + 20) \<and>
        hunger (snd (play p)) = min 100 (hunger p + 10) \<and> play_sim p = play p"
      by blast
    with h show "fst (play p) \<and> happiness (snd (play p)) = 100 \<and>
        hunger (snd (play p)) = min 100 (hunger p + 10) \<and> play_sim p = play p"
      by simp
  qed
  show ?thesis
    by (rule conjI [OF general conjI [OF clamped conjI [OF special conjI [OF fresh fresh_sim]]]])
qed

theorem C8_play_witness:
  "\<not> is_asleep \<lparr>hunger = 85, happiness = 95, age = 2, is_asleep = False,
      state = ''hungry'', last_tick = 0\<rparr> \<and>
   play \<lparr>hunger = 85, happiness = 95, age = 2, is_asleep = False, state = ''hungry'',
      last_tick = 0\<rparr> =
     (True, \<lparr>hunger = 95, happiness = 100, age = 2, is_asleep = False, state = ''dead'',
       last_tick = 0\<rparr>) \<and>
   play_sim \<lparr>hunger = 85, happiness = 95, age = 2, is_asleep = False, state = ''hungry'',
      last_tick = 0\<rparr> =
     (True, \<lparr>hunger = 95, happiness = 100, age = 2, is_asleep = False, state = ''dead'',
       last_tick = 0\<rparr>)"
  using C8_play [of "\<lparr>hunger = 85, happiness = 95, age = 2, is_asleep = False,
      state = ''hungry'', last_tick = 0\<rparr>" 0]
  by (simp add: play_def play_sim_def update_state_def update_state_sim_def
      spec_derive_state_def init_def)

text \<open>
  Without the bound on hunger the last sentence fails: the awake pet with hunger 95 and
  happiness 95 that is not dead is fed through \<^verbatim>\<open>play\<close> to hunger 100, which is 5
  more and not 10, in the class of either file.
\<close>

theorem C8_play_counterexample:
  "\<not> is_asleep \<lparr>hunger = 95, happiness = 95, age = 0, is_asleep = False,
      state = ''neutral'', last_tick = 0\<rparr> \<and>
   state \<lparr>hunger = 95, happiness = 95, age = 0, is_asleep = False,
      state = ''neutral'', last_tick = 0\<rparr> \<noteq> ''dead'' \<and>
   0 \<le> hunger \<lparr>hunger = 95, happiness = 95, age = 0, is_asleep = False,
      state = ''neutral'', last_tick = 0\<rparr> \<and>
   hunger \<lparr>hunger = 95, happiness = 95, age = 0, is_asleep = False,
      state = ''neutral'', last_tick = 0\<rparr> \<le> 100 \<and>
   happiness \<lparr>hunger = 95, happiness = 95, age = 0, is_asleep = False,
      state = ''neutral'', last_tick = 0\<rparr> = 95 \<and>
   fst (play \<lparr>hunger = 95, happiness = 95, age = 0, is_asleep = False,
      state = ''neutral'', last_tick = 0\<rparr>) \<and>
   happiness (snd (play \<lparr>hunger = 95, happiness = 95, age = 0, is_asleep = False,
      state = ''neutral'', last_tick = 0\<rparr>)) = 100 \<and>
   hunger (snd (play \<lparr>hunger = 95, happiness = 95, age = 0, is_asleep = False,
      state = ''neutral'', last_tick = 0\<rparr>)) = 100 \<and>
   hunger (snd (play \<lparr>hunger = 95, happiness = 95, age = 0, is_asleep = False,
      state = ''neutral'', last_tick = 0\<rparr>)) \<noteq>
     hunger \<lparr>hunger = 95, happiness = 95, age = 0, is_asleep = False,
      state = ''neutral'', last_tick = 0\<rparr> + 10 \<and>
   fst (play_sim \<lparr>hunger = 95, happiness = 95, age = 0, is_asleep = False,
      state = ''neutral'', last_tick = 0\<rparr>) \<and>
   hunger (snd (play_sim \<lparr>hunger = 95, happiness = 95, age = 0, is_asleep = False,
      state = ''neutral'', last_tick = 0\<rparr>)) = 100 \<and>
   hunger (snd (play_sim \<lparr>hunger = 95, happiness = 95, age = 0, is_asleep = False,
      state = ''neutral'', last_tick = 0\<rparr>)) \<noteq>
     hunger \<lparr>hunger = 95, happiness = 95, age = 0, is_asleep = False,
      state = ''neutral'', last_tick = 0\<rparr> + 10"
  by (simp add: play_def play_sim_def update_state_def update_state_sim_def)

text \<open>
  C9. For a pet that is not dead, \<^verbatim>\<open>toggle_sleep\<close> returns true, flips the sleep
  flag, leaves hunger, happiness and age alone and derives the state afresh. Going to
  sleep always gives state "asleep", also with lethal statistics such as hunger 90 and
  happiness 10; waking up with lethal statistics such as hunger 90 gives state "dead"
  at once. This holds for the class of either file.
\<close>

theorem C9_toggle_sleep:
  "(state p \<noteq> ''dead'' \<longrightarrow>
      fst (toggle_sleep p) \<and>
      is_asleep (snd (toggle_sleep p)) = (\<not> is_asleep p) \<and>
      hunger (snd (toggle_sleep p)) = hunger p \<and>
      happiness (snd (toggle_sleep p)) = happiness p \<and>
      age (snd (toggle_sleep p)) = age p \<and>
      last_tick (snd (toggle_sleep p)) = last_tick p \<and>
      state (snd (toggle_sleep p)) =
        spec_derive_state (hunger p) (happiness p) (\<not> is_asleep p) \<and>
      toggle_sleep_sim p = toggle_sleep p) \<and>
   (state p \<noteq> ''dead'' \<and> \<not> is_asleep p \<longrightarrow>
      state (snd (toggle_sleep p)) = ''asleep'') \<and>
   (state p \<noteq> ''dead'' \<and> is_asleep p \<and> (hunger p > 85 \<or> happiness p < 15) \<longrightarrow>
      state (snd (toggle_sleep p)) = ''dead'')"
  by (simp add: toggle_sleep_def toggle_sleep_sim_eq state_update_state
      spec_derive_state_def)

theorem C9_toggle_sleep_witness:
  "state \<lparr>hunger = 90, happiness = 10, age = 0, is_asleep = False, state = ''neutral'',
      last_tick = 0\<rparr> \<noteq> ''dead'' \<and>
   toggle_sleep \<lparr>hunger = 90, happiness = 10, age = 0, is_asleep = False,
      state = ''neutral'', last_tick = 0\<rparr> =
     (True, \<lparr>hunger = 90, happiness = 10, age = 0, is_asleep = True, state = ''asleep'',
       last_tick = 0\<rparr>) \<and>
   toggle_sleep \<lparr>hunger = 90, happiness = 50, age = 4, is_asleep = True,
      state = ''asleep'', last_tick = 0\<rparr> =
     (True, \<lparr>hunger = 90, happiness = 50, age = 4, is_asleep = False, state = ''dead'',
       last_tick = 0\<rparr>) \<and>
   toggle_sleep_sim \<lparr>hunger = 90, happiness = 50, age = 4, is_asleep = True,
      state = ''asleep'', last_tick = 0\<rparr> =
     (True, \<lparr>hunger = 90, happiness = 50, age = 4, is_asleep = False, state = ''dead'',
       last_tick = 0\<rparr>)"
  using C9_toggle_sleep [of "\<lparr>hunger = 90, happiness = 10, age = 0, is_asleep = False,
      state = ''neutral'', last_tick = 0\<rparr>"]
    C9_toggle_sleep [of "\<lparr>hunger = 90, happiness = 50, age = 4, is_asleep = True,
      state = ''asleep'', last_tick = 0\<rparr>"]
  by (simp add: toggle_sleep_def toggle_sleep_sim_def update_state_def update_state_sim_def
      spec_derive_state_def)

text \<open>
  C10. The class of \<^verbatim>\<open>tamagotchi.py\<close> and the class of \<^verbatim>\<open>tam_sim.py\<close> behave
  alike: on every pet with hunger and happiness between 0 and 100, whatever the sleep
  flag and the random draws, \<^verbatim>\<open>update_tick\<close>, \<^verbatim>\<open>update_state\<close>, \<^verbatim>\<open>feed\<close>,
  \<^verbatim>\<open>play\<close> and \<^verbatim>\<open>toggle_sleep\<close> of the two files give the same pet, the same
  return value and the same generator, and so does every sequence of calls, although
  one file clamps both statistics after the arithmetic and the other clamps inline on
  one side.
\<close>

theorem C10_files_equivalent:
  "0 \<le> hunger p \<and> hunger p \<le> 100 \<and> 0 \<le> happiness p \<and> happiness p \<le> 100 \<longrightarrow>
     update_tick_sim p r = update_tick p r \<and>
     update_state_sim p = update_state p \<and>
     feed_sim p = feed p \<and>
     play_sim p = play p \<and>
     toggle_sleep_sim p = toggle_sleep p \<and>
     run_sim cs (p, r) = run cs (p, r)"
proof
  assume "0 \<le> hunger p \<and> hunger p \<le> 100 \<and> 0 \<le> happiness p \<and> happiness p \<le> 100"
  then have "in_range p"
    by (simp add: in_range_def)
  then show "update_tick_sim p r = update_tick p r \<and>
     update_state_sim p = update_state p \<and>
     feed_sim p = feed p \<and>
     play_sim p = play p \<and>
     toggle_sleep_sim p = toggle_sleep p \<and>
     run_sim cs (p, r) = run cs (p, r)"
    by (simp add: update_tick_sim_eq update_state_sim_eq toggle_sleep_sim_eq feed_sim_eq
        play_sim_eq run_sim_eq)
qed

theorem C10_files_equivalent_witness:
  "hunger (init 0) \<le> 100 \<and>
   feed_sim (init 0) = feed (init 0) \<and>
   play_sim (init 0) = play (init 0) \<and>
   fst (run_sim [Feed, Play, Tick, ToggleSleep, Tick, ToggleSleep, Play] (init 0, \<lambda>n. 0)) =
   fst (run [Feed, Play, Tick, ToggleSleep, Tick, ToggleSleep, Play] (init 0, \<lambda>n. 0))"
  using C10_files_equivalent [of "init 0" "\<lambda>n. 0"
      "[Feed, Play, Tick, ToggleSleep, Tick, ToggleSleep, Play]"]
  by (simp del: run.simps run_sim.simps add: init_def)

end
